theory Spec2Isabelle
  imports Main "HOL-Library.Word"
begin

section \<open>Data model\<close>

text \<open>
  The entities \<open>User\<close> and \<open>RefreshToken\<close> are declared in files that are not part of the
  sources at hand (\<open>users/entities/user.entity\<close>, \<open>auth/entities/refresh-token.entity\<close>).
  Their fields are taken from the places where \<open>auth.service.ts\<close> and \<open>users.service.ts\<close>
  read and write them. A nullable column is an \<open>option\<close>; \<open>None\<close> is JavaScript's \<open>null\<close>
  or \<open>undefined\<close>. \<open>tokenVersion\<close> is a JavaScript number that holds an integer; it is an
  \<open>int\<close> here, and the one arithmetic operation the code performs on it goes through
  \<open>jsAddOne\<close> below, which rounds as the number type does.
\<close>

type_synonym byte = "8 word"

text \<open>
  Modelled from the spec: the enum \<open>UserStatus\<close> is imported from the missing entity file.
  The code names \<open>Inactive\<close>, \<open>Deleted\<close> and \<open>Blocked\<close>; the specification lists the
  status values as Active, Inactive, Blocked, Deleted.
\<close>

datatype UserStatus = Active | Inactive | Blocked | Deleted

record User =
  userId :: string
  email :: string
  password :: "string option"
  googleId :: "string option"
  provider :: "string option"
  status :: UserStatus
  tokenVersion :: int
  picture :: "string option"
  displayName :: "string option"
  firstName :: "string option"
  isActivatedWithEmail :: "bool option"

text \<open>A refresh token row; \<open>ownerId\<close> is the key of the user the row belongs to.\<close>

record RefreshToken =
  tokenId :: string
  ownerId :: string

text \<open>\<open>GoogleProfile\<close> of \<open>users.service.ts\<close>; the values come from the identity token's
  payload, where every claim but the subject and the email may be absent.\<close>

record GoogleProfile =
  gp_email :: string
  gp_googleId :: string
  gp_picture :: "string option"
  gp_displayName :: "string option"
  gp_isActivatedWithEmail :: "bool option"
  gp_firstName :: "string option"
  gp_provider :: string

text \<open>The claims of a verified Google identity token that \<open>googleLogin\<close> reads.\<close>

record TokenPayload =
  tp_sub :: string
  tp_email :: string
  tp_picture :: "string option"
  tp_displayName :: "string option"
  tp_given_name :: "string option"
  tp_email_verified :: "bool option"

text \<open>The object handed to \<open>jwtService.sign\<close>.\<close>

record JwtPayload =
  sub :: string
  jwt_email :: string

subsection \<open>Exceptions\<close>

text \<open>
  Every message literal of the two services is one constructor of \<open>message\<close>:
  \<^item> \<open>UserNotFound\<close>: 'User not found'
  \<^item> \<open>PleaseUseGoogle\<close>: 'Please use Google to login'
  \<^item> \<open>WrongEmailOrPassword\<close>: 'Wrong email or password'
  \<^item> \<open>EmailInUse\<close>: 'email in use'
  \<^item> \<open>EmailIsGoogleAccount\<close>: 'This email is associated with a Google account. Please use
    Google to login.'
  \<^item> \<open>AccountNotActive\<close>: the Turkish sentence of \<open>login\<close> (the account is not active,
    contact support)
  \<^item> \<open>RegisteredOtherwise\<close>: the Turkish sentence of \<open>verifyUser\<close> (this address was
    registered by another method)
  \<^item> \<open>NoUserWithEmail\<close>: the Turkish sentence of \<open>verifyUser\<close> (no user with this address)
\<close>

datatype message =
    UserNotFound
  | PleaseUseGoogle
  | WrongEmailOrPassword
  | EmailInUse
  | EmailIsGoogleAccount
  | AccountNotActive
  | RegisteredOtherwise
  | NoUserWithEmail

text \<open>
  The exception classes the code throws, and the two failures that come from the runtime
  and the persistence layer: \<open>TypeError\<close> is what JavaScript raises when a property of
  \<open>null\<close> or \<open>undefined\<close> is read, \<open>QueryFailedError\<close> is the store refusing a row, and
  \<open>ExternalError\<close> is whatever a collaborator (the Google client, the token service)
  throws.
\<close>

datatype exception =
    NotFoundException message
  | ForbiddenException message
  | BadRequestException message
  | UnprocessableEntityException message
  | AccountInactiveException message
  | TypeError
  | QueryFailedError
  | ExternalError string

subsection \<open>The world: both repositories and the random source\<close>

text \<open>
  \<open>users\<close> and \<open>refreshTokens\<close> are the rows behind the two injected repositories, in
  insertion order. \<open>entropy\<close> is the byte sequence \<open>crypto.randomBytes\<close> will deliver and
  \<open>entropyPos\<close> the number of bytes drawn so far.
\<close>

record world =
  users :: "User list"
  refreshTokens :: "RefreshToken list"
  entropy :: "nat \<Rightarrow> byte"
  entropyPos :: nat

text \<open>An asynchronous method: it reads the world and yields an exception or a value,
  together with the world it leaves behind.\<close>

type_synonym 'a io = "world \<Rightarrow> (exception + 'a) \<times> world"

text \<open>
  The collaborators whose code is outside the sources, passed explicitly:
  \<^item> \<open>scrypt password salt keylen\<close>: Node's key derivation, yielding the derived bytes;
  \<^item> \<open>sign\<close>: \<open>JwtService.sign\<close>;
  \<^item> \<open>verifyIdToken\<close>: the Google client; \<open>Inl\<close> when it throws, \<open>Inr None\<close> when the
    ticket carries no payload;
  \<^item> \<open>createAccessToken\<close>, \<open>createRefreshToken\<close>: \<open>TokenService\<close>;
  \<^item> \<open>genId\<close>: the key the store gives a new row;
  \<^item> \<open>defaultStatus\<close>, \<open>defaultProvider\<close>: the column defaults of the missing entity;
  \<^item> \<open>uniqueEmail\<close>: whether the missing entity declares the email column unique.
\<close>

record deps =
  scrypt :: "string \<Rightarrow> string \<Rightarrow> nat \<Rightarrow> byte list"
  sign :: "JwtPayload \<Rightarrow> string"
  verifyIdToken :: "string \<Rightarrow> exception + TokenPayload option"
  createAccessToken :: "User \<Rightarrow> string io"
  createRefreshToken :: "User \<Rightarrow> string io"
  genId :: "User list \<Rightarrow> string"
  defaultStatus :: UserStatus
  defaultProvider :: "string option"
  uniqueEmail :: bool

section \<open>JavaScript primitives\<close>

text \<open>JavaScript truthiness of a nullable string: \<open>null\<close>, \<open>undefined\<close> and the empty
  string are falsy.\<close>

definition truthy :: "string option \<Rightarrow> bool" where
  "truthy s = (case s of None \<Rightarrow> False | Some x \<Rightarrow> x \<noteq> [])"

text \<open>
  \<open>v + 1\<close> on JavaScript numbers (IEEE 754 doubles, rounding to nearest, ties to even),
  for an integer \<open>v\<close> that a double holds. Up to \<open>2^53 = 9007199254740992\<close> in magnitude
  every integer is a double and the sum is exact. From \<open>2^53\<close> to \<open>2^54\<close> the doubles are
  the even integers, \<open>v + 1\<close> lies midway between \<open>v\<close> and \<open>v + 2\<close>, and the one with the even
  significand (\<open>v div 2\<close> even) is taken; in particular \<open>2^53 + 1\<close> is \<open>2^53\<close> again. Beyond
  \<open>2^54\<close> the doubles are four or more apart and \<open>v\<close> is the nearest.
\<close>

definition jsAddOne :: "int \<Rightarrow> int" where
  "jsAddOne v =
     (if - 9007199254740992 \<le> v \<and> v < 9007199254740992 then v + 1
      else if - 18014398509481984 \<le> v \<and> v < 18014398509481984
           then (if even (v div 2) then v else v + 2)
      else v)"


text \<open>\<open>Buffer.toString('hex')\<close>: two lower-case hexadecimal digits per byte, the high
  nibble first.\<close>

definition hexDigits :: string where
  "hexDigits = ''0123456789abcdef''"

definition hexDigit :: "nat \<Rightarrow> char" where
  "hexDigit n = hexDigits ! (n mod 16)"

fun toHex :: "byte list \<Rightarrow> string" where
  "toHex [] = []"
| "toHex (b # bs) = hexDigit (unat b div 16) # hexDigit (unat b mod 16) # toHex bs"

text \<open>\<open>String.prototype.split\<close> with a separator of one character: the pieces between
  the occurrences of the separator; a string without the separator is its only piece, and
  the empty string gives one empty piece.\<close>

fun split :: "char \<Rightarrow> string \<Rightarrow> string list" where
  "split c [] = [[]]"
| "split c (x # xs) =
     (if x = c then [] # split c xs
      else (case split c xs of
              [] \<Rightarrow> [[x]]
            | p # ps \<Rightarrow> (x # p) # ps))"

text \<open>\<open>crypto.randomBytes(n)\<close>: the next \<open>n\<close> bytes of the random source.\<close>

definition randomBytes :: "nat \<Rightarrow> world \<Rightarrow> byte list \<times> world" where
  "randomBytes n w =
     (map (entropy w) [entropyPos w ..< entropyPos w + n],
      w\<lparr>entropyPos := entropyPos w + n\<rparr>)"

section \<open>UsersService\<close>

text \<open>\<open>Repository.findOneBy\<close>: the first row that matches the criterion, or \<open>null\<close>.\<close>

definition findByEmail :: "string \<Rightarrow> world \<Rightarrow> User option" where
  "findByEmail e w = find (\<lambda>u. email u = e) (users w)"

definition findOneById :: "string \<Rightarrow> world \<Rightarrow> User option" where
  "findOneById i w = find (\<lambda>u. userId u = i) (users w)"

definition findByGoogleId :: "string \<Rightarrow> world \<Rightarrow> User option" where
  "findByGoogleId g w = find (\<lambda>u. googleId u = Some g) (users w)"

text \<open>\<open>Repository.save\<close> of an entity without a key: the store assigns the key and appends
  the row, or refuses it when the email column is unique and the address is taken.\<close>

definition insertUser :: "deps \<Rightarrow> User \<Rightarrow> User io" where
  "insertUser d u w =
     (if uniqueEmail d \<and> findByEmail (email u) w \<noteq> None then (Inl QueryFailedError, w)
      else (let u' = u\<lparr>userId := genId d (users w)\<rparr>
            in (Inr u', w\<lparr>users := users w @ [u']\<rparr>)))"

text \<open>\<open>Repository.save\<close> of an entity that was loaded from the store: the row with its key
  is replaced.\<close>

definition saveUser :: "User \<Rightarrow> world \<Rightarrow> world" where
  "saveUser u w = w\<lparr>users := map (\<lambda>v. if userId v = userId u then u else v) (users w)\<rparr>"

text \<open>\<open>refreshTokenRepo.delete({ user })\<close>: every row owned by the user goes.\<close>

definition deleteRefreshTokensOf :: "User \<Rightarrow> world \<Rightarrow> world" where
  "deleteRefreshTokensOf u w =
     w\<lparr>refreshTokens := filter (\<lambda>t. ownerId t \<noteq> userId u) (refreshTokens w)\<rparr>"

definition create :: "deps \<Rightarrow> string \<Rightarrow> string \<Rightarrow> User io" where
  "create d e p w =
     insertUser d
       \<lparr>userId = [], email = e, password = Some p, googleId = None,
        provider = defaultProvider d, status = defaultStatus d, tokenVersion = 0,
        picture = None, displayName = None, firstName = None,
        isActivatedWithEmail = None\<rparr> w"

definition createFromGoogle :: "deps \<Rightarrow> GoogleProfile \<Rightarrow> User io" where
  "createFromGoogle d profile w =
     insertUser d
       \<lparr>userId = [], email = gp_email profile, password = None,
        googleId = Some (gp_googleId profile), provider = Some (gp_provider profile),
        status = defaultStatus d, tokenVersion = 0,
        picture = gp_picture profile, displayName = gp_displayName profile,
        firstName = gp_firstName profile,
        isActivatedWithEmail = gp_isActivatedWithEmail profile\<rparr> w"

text \<open>\<open>UsersService.banUser\<close>; \<open>user.tokenVersion += 1\<close> is the addition of JavaScript
  numbers.\<close>

definition banUser :: "string \<Rightarrow> unit io" where
  "banUser i w =
     (case findOneById i w of
        None \<Rightarrow> (Inl (NotFoundException UserNotFound), w)
      | Some user \<Rightarrow>
          (let user' = user\<lparr>status := Blocked,
                              tokenVersion := jsAddOne (tokenVersion user)\<rparr>;
               w1 = saveUser user' w;
               w2 = deleteRefreshTokensOf user' w1
           in (Inr (), w2)))"

section \<open>AuthService\<close>

text \<open>
  The four statements that \<open>signin\<close> (lines 96 to 102) and \<open>verifyUser\<close> (lines 155 to 161)
  share word for word: split the stored value at the dots, take the first two pieces as
  salt and stored hash, derive the key again and compare the hexadecimal strings.
  \<open>user.password.split\<close> on \<open>null\<close> is a \<open>TypeError\<close>; a missing second piece is
  \<open>undefined\<close>, which differs from every string.
\<close>

definition checkPassword :: "deps \<Rightarrow> string \<Rightarrow> string option \<Rightarrow> exception + unit" where
  "checkPassword d pw stored =
     (case stored of
        None \<Rightarrow> Inl TypeError
      | Some s \<Rightarrow>
          (case split CHR ''.'' s of
             [] \<Rightarrow> Inl TypeError
           | salt # rest \<Rightarrow>
               (let storedHash = (case rest of [] \<Rightarrow> None | h # _ \<Rightarrow> Some h);
                    hash = scrypt d pw salt 32
                in if storedHash \<noteq> Some (toHex hash)
                   then Inl (BadRequestException WrongEmailOrPassword)
                   else Inr ())))"

text \<open>Lines 45 to 52 of \<open>signup\<close>: draw the salt, derive the key, join both.\<close>

definition hashPassword :: "deps \<Rightarrow> string \<Rightarrow> world \<Rightarrow> string \<times> world" where
  "hashPassword d pw w =
     (let (bytes, w1) = randomBytes 8 w;
          salt = toHex bytes;
          hash = scrypt d pw salt 32;
          result = salt @ ''.'' @ toHex hash
      in (result, w1))"

definition signup :: "deps \<Rightarrow> string \<Rightarrow> string \<Rightarrow> string io" where
  "signup d e pw w =
     (case findByEmail e w of
        Some user \<Rightarrow>
          (if truthy (googleId user) then (Inl (ForbiddenException EmailIsGoogleAccount), w)
           else (Inl (BadRequestException EmailInUse), w))
      | None \<Rightarrow>
          (let (result, w1) = hashPassword d pw w
           in (case create d e result w1 of
                 (Inl x, w2) \<Rightarrow> (Inl x, w2)
               | (Inr createdUser, w2) \<Rightarrow>
                   (Inr (sign d \<lparr>sub = userId createdUser, jwt_email = email createdUser\<rparr>),
                    w2))))"

definition login :: "deps \<Rightarrow> User \<Rightarrow> (string \<times> string) io" where
  "login d user w =
     (if status user = Inactive \<or> status user = Deleted \<or> status user = Blocked
      then (Inl (AccountInactiveException AccountNotActive), w)
      else (case createAccessToken d user w of
              (Inl x, w1) \<Rightarrow> (Inl x, w1)
            | (Inr accessToken, w1) \<Rightarrow>
                (case createRefreshToken d user w1 of
                   (Inl x, w2) \<Rightarrow> (Inl x, w2)
                 | (Inr refreshToken, w2) \<Rightarrow> (Inr (accessToken, refreshToken), w2))))"

definition signin :: "deps \<Rightarrow> string \<Rightarrow> string \<Rightarrow> string io" where
  "signin d e pw w =
     (case findByEmail e w of
        None \<Rightarrow> (Inl (NotFoundException UserNotFound), w)
      | Some user \<Rightarrow>
          (if \<not> truthy (password user) \<and> truthy (googleId user)
           then (Inl (ForbiddenException PleaseUseGoogle), w)
           else (case checkPassword d pw (password user) of
                   Inl x \<Rightarrow> (Inl x, w)
                 | Inr _ \<Rightarrow>
                     (Inr (sign d \<lparr>sub = userId user, jwt_email = email user\<rparr>), w))))"

definition googleLogin :: "deps \<Rightarrow> string \<Rightarrow> string io" where
  "googleLogin d tok w =
     (case verifyIdToken d tok of
        Inl x \<Rightarrow> (Inl x, w)
      | Inr None \<Rightarrow> (Inl TypeError, w)
      | Inr (Some payload) \<Rightarrow>
          (let gid = tp_sub payload
           in (case findByGoogleId gid w of
                 Some user \<Rightarrow>
                   (Inr (sign d \<lparr>sub = userId user, jwt_email = email user\<rparr>), w)
               | None \<Rightarrow>
                   (case createFromGoogle d
                           \<lparr>gp_email = tp_email payload, gp_googleId = gid,
                            gp_picture = tp_picture payload,
                            gp_displayName = tp_displayName payload,
                            gp_isActivatedWithEmail = tp_email_verified payload,
                            gp_firstName = tp_given_name payload,
                            gp_provider = ''google''\<rparr> w of
                      (Inl x, w1) \<Rightarrow> (Inl x, w1)
                    | (Inr user, w1) \<Rightarrow>
                        (Inr (sign d \<lparr>sub = userId user, jwt_email = email user\<rparr>),
                         w1)))))"

definition verifyUser :: "deps \<Rightarrow> string \<Rightarrow> string \<Rightarrow> User io" where
  "verifyUser d e pw w =
     (case findByEmail e w of
        None \<Rightarrow> (Inl (NotFoundException NoUserWithEmail), w)
      | Some user \<Rightarrow>
          (if provider user = Some ''google''
           then (Inl (UnprocessableEntityException RegisteredOtherwise), w)
           else (case checkPassword d pw (password user) of
                   Inl x \<Rightarrow> (Inl x, w)
                 | Inr _ \<Rightarrow> (Inr user, w))))"

section \<open>Sample data\<close>

text \<open>
  A small world on which the theorems below are run. \<open>scrypt0\<close> stands in for the key
  derivation (its bytes depend on the lengths of password and salt only), \<open>alice\<close> is a
  user who registered with the password \<open>pw1\<close> and the salt bytes \<open>aliceSalt\<close>,
  \<open>bob\<close> is a banned user who came through Google, and \<open>carol\<close> is a row with neither a
  password nor a Google identity.
\<close>

definition scrypt0 :: "string \<Rightarrow> string \<Rightarrow> nat \<Rightarrow> byte list" where
  "scrypt0 pw salt n = replicate n (of_nat (length pw + length salt))"

definition aliceSalt :: "byte list" where
  "aliceSalt = [1, 2, 3, 4, 5, 6, 7, 8]"

definition aliceStored :: string where
  "aliceStored = toHex aliceSalt @ ''.'' @ toHex (scrypt0 ''pw1'' (toHex aliceSalt) 32)"

definition alice :: User where
  "alice = \<lparr>userId = ''u1'', email = ''a@x.com'', password = Some aliceStored,
     googleId = None, provider = None, status = Active, tokenVersion = 0,
     picture = None, displayName = None, firstName = None, isActivatedWithEmail = None\<rparr>"

definition bob :: User where
  "bob = \<lparr>userId = ''u2'', email = ''b@x.com'', password = None,
     googleId = Some ''g2'', provider = Some ''google'', status = Blocked, tokenVersion = 3,
     picture = None, displayName = None, firstName = Some ''Bob'',
     isActivatedWithEmail = Some True\<rparr>"

definition carol :: User where
  "carol = \<lparr>userId = ''u3'', email = ''c@x.com'', password = None,
     googleId = None, provider = None, status = Active, tokenVersion = 0,
     picture = None, displayName = None, firstName = None, isActivatedWithEmail = None\<rparr>"

definition world0 :: world where
  "world0 = \<lparr>users = [alice, bob, carol],
     refreshTokens = [\<lparr>tokenId = ''t1'', ownerId = ''u1''\<rparr>,
                      \<lparr>tokenId = ''t2'', ownerId = ''u2''\<rparr>,
                      \<lparr>tokenId = ''t3'', ownerId = ''u1''\<rparr>],
     entropy = (\<lambda>n. of_nat (17 * n + 3)), entropyPos = 0\<rparr>"

text \<open>Two identity tokens the sample Google client accepts: \<open>tok-bob\<close> is bob's, and
  \<open>tok-new\<close> belongs to a Google identity the store has never seen, whose email address is
  alice's.\<close>

definition payloadBob :: TokenPayload where
  "payloadBob = \<lparr>tp_sub = ''g2'', tp_email = ''b@x.com'', tp_picture = None,
     tp_displayName = None, tp_given_name = Some ''Bob'', tp_email_verified = Some True\<rparr>"

definition payloadNew :: TokenPayload where
  "payloadNew = \<lparr>tp_sub = ''g9'', tp_email = ''a@x.com'', tp_picture = None,
     tp_displayName = None, tp_given_name = Some ''Al'', tp_email_verified = Some True\<rparr>"

definition deps0 :: deps where
  "deps0 = \<lparr>scrypt = scrypt0,
     sign = (\<lambda>p. sub p @ ''|'' @ jwt_email p),
     verifyIdToken = (\<lambda>t. if t = ''tok-bob'' then Inr (Some payloadBob)
                          else if t = ''tok-new'' then Inr (Some payloadNew)
                          else Inl (ExternalError ''invalid token'')),
     createAccessToken = (\<lambda>u w. (Inr (''access-'' @ userId u), w)),
     createRefreshToken = (\<lambda>u w. (Inr (''refresh-'' @ userId u),
        w\<lparr>refreshTokens := refreshTokens w @ [\<lparr>tokenId = ''new'', ownerId = userId u\<rparr>]\<rparr>)),
     genId = (\<lambda>us. ''u'' @ replicate (length us) CHR ''+''),
     defaultStatus = Active, defaultProvider = None, uniqueEmail = False\<rparr>"

text \<open>The row \<open>createFromGoogle\<close> makes of \<open>payloadNew\<close> in \<open>world0\<close>.\<close>

definition newcomer :: User where
  "newcomer = \<lparr>userId = ''u+++'', email = ''a@x.com'', password = None,
     googleId = Some ''g9'', provider = Some ''google'', status = Active, tokenVersion = 0,
     picture = None, displayName = None, firstName = Some ''Al'',
     isActivatedWithEmail = Some True\<rparr>"

text \<open>
  Three more rows: \<open>dora\<close>'s token version is \<open>2^53\<close>; \<open>erin\<close>'s stored value is a string
  without a dot; \<open>fay\<close> has a Google id and the empty string as stored value.
\<close>

definition dora :: User where
  "dora = \<lparr>userId = ''u5'', email = ''d@y.com'', password = Some aliceStored,
     googleId = None, provider = None, status = Active, tokenVersion = 9007199254740992,
     picture = None, displayName = None, firstName = None, isActivatedWithEmail = None\<rparr>"

definition erin :: User where
  "erin = \<lparr>userId = ''u6'', email = ''e@y.com'', password = Some ''corrupt'',
     googleId = None, provider = None, status = Active, tokenVersion = 0,
     picture = None, displayName = None, firstName = None, isActivatedWithEmail = None\<rparr>"

definition fay :: User where
  "fay = \<lparr>userId = ''u7'', email = ''f@y.com'', password = Some [],
     googleId = Some ''g7'', provider = Some ''google'', status = Active, tokenVersion = 0,
     picture = None, displayName = None, firstName = None, isActivatedWithEmail = None\<rparr>"

definition world1 :: world where
  "world1 = \<lparr>users = [dora, erin, fay],
     refreshTokens = [\<lparr>tokenId = ''t5'', ownerId = ''u5''\<rparr>,
                      \<lparr>tokenId = ''t6'', ownerId = ''u6''\<rparr>],
     entropy = (\<lambda>n. of_nat (17 * n + 3)), entropyPos = 0\<rparr>"

section \<open>Facts about the primitives\<close>

lemmas sample_defs =
  alice_def bob_def carol_def world0_def deps0_def payloadBob_def payloadNew_def newcomer_def

lemmas world1_defs = dora_def erin_def fay_def world1_def


lemma hexDigits_props:
  "length hexDigits = 16" "distinct hexDigits" "CHR ''.'' \<notin> set hexDigits"
  by (simp_all add: hexDigits_def)

lemma hexDigit_inj: "a < 16 \<Longrightarrow> b < 16 \<Longrightarrow> hexDigit a = hexDigit b \<Longrightarrow> a = b"
  using hexDigits_props(1,2) by (simp add: hexDigit_def nth_eq_iff_index_eq)

lemma hexDigit_not_dot: "hexDigit n \<noteq> CHR ''.''"
proof -
  have "n mod 16 < length hexDigits" by (simp add: hexDigits_props)
  then have "hexDigit n \<in> set hexDigits" unfolding hexDigit_def by (rule nth_mem)
  then show ?thesis using hexDigits_props(3) by auto
qed

lemma toHex_no_dot: "CHR ''.'' \<notin> set (toHex bs)"
  by (induction bs) (simp_all add: hexDigit_not_dot[symmetric])

lemma length_toHex: "length (toHex bs) = 2 * length bs"
  by (induction bs) simp_all

text \<open>A byte is determined by its two hexadecimal digits.\<close>

lemma byte_nibbles_inj:
  fixes x y :: byte
  assumes "hexDigit (unat x div 16) = hexDigit (unat y div 16)"
      and "hexDigit (unat x mod 16) = hexDigit (unat y mod 16)"
  shows "x = y"
proof -
  have "unat x < 256" and "unat y < 256"
    using unsigned_less[of x, where 'a = nat] unsigned_less[of y, where 'a = nat]
    by simp_all
  then have "unat x div 16 < 16" "unat y div 16 < 16" by simp_all
  then have d: "unat x div 16 = unat y div 16" using assms(1) by (rule hexDigit_inj)
  have "unat x mod 16 < 16" "unat y mod 16 < 16" by simp_all
  then have m: "unat x mod 16 = unat y mod 16" using assms(2) by (rule hexDigit_inj)
  have "unat x = unat y"
    using d m by (metis div_mult_mod_eq)
  then show ?thesis by (simp add: word_unat_eq_iff)
qed

lemma toHex_inj: "toHex a = toHex b \<Longrightarrow> a = b"
proof (induction a arbitrary: b)
  case Nil
  then show ?case by (cases b) simp_all
next
  case (Cons x xs)
  then show ?case by (cases b) (auto dest: byte_nibbles_inj)
qed

lemma split_nonempty: "split c s \<noteq> []"
  by (induction s) (auto split: list.splits)

lemma split_no_sep: "c \<notin> set s \<Longrightarrow> split c s = [s]"
  by (induction s) auto

lemma split_append: "c \<notin> set a \<Longrightarrow> split c (a @ c # b) = a # split c b"
  by (induction a) (auto simp: split_nonempty split: list.splits)

lemma split_two_pieces: "c \<in> set s \<Longrightarrow> \<exists>a h rest. split c s = a # h # rest"
proof (induction s)
  case Nil
  then show ?case by simp
next
  case (Cons x xs)
  show ?case
  proof (cases "x = c")
    case True
    then show ?thesis using split_nonempty[of c xs] by (cases "split c xs") simp_all
  next
    case False
    with Cons.prems have "c \<in> set xs" by simp
    then obtain a h rest where "split c xs = a # h # rest" using Cons.IH by blast
    then show ?thesis using False by simp
  qed
qed

lemma length_randomBytes: "length (fst (randomBytes n w)) = n"
  by (simp add: randomBytes_def)

lemma randomBytes_nth:
  "i < n \<Longrightarrow> fst (randomBytes n w) ! i = entropy w (entropyPos w + i)"
  by (simp add: randomBytes_def)

lemma find_append_new: "find P xs = None \<Longrightarrow> P x \<Longrightarrow> find P (xs @ [x]) = Some x"
  by (induction xs) (auto split: if_splits)




lemma findOneById_None_iff: "findOneById i w = None \<longleftrightarrow> i \<notin> userId ` set (users w)"
  by (auto simp: findOneById_def find_None_iff)

section \<open>Facts about hashing and checking a password\<close>

lemma hashPassword_shape:
  "hashPassword d pw w =
     (toHex (fst (randomBytes 8 w)) @ ''.'' @
        toHex (scrypt d pw (toHex (fst (randomBytes 8 w))) 32),
      w\<lparr>entropyPos := entropyPos w + 8\<rparr>)"
  by (simp add: hashPassword_def randomBytes_def Let_def)

lemma hashPassword_nonempty: "fst (hashPassword d p w) \<noteq> []"
  by (simp add: hashPassword_shape)

text \<open>Checking against a stored value of the shape \<open>hex . hex\<close> succeeds exactly when
  the derivation with the stored salt gives the stored key.\<close>

lemma checkPassword_stored:
  "checkPassword d q (Some (toHex bytes @ ''.'' @ toHex key)) =
     (if scrypt d q (toHex bytes) 32 = key then Inr ()
      else Inl (BadRequestException WrongEmailOrPassword))"
  using split_append[OF toHex_no_dot, of bytes "toHex key"]
        split_no_sep[OF toHex_no_dot, of key]
  by (auto simp: checkPassword_def Let_def dest: toHex_inj)

lemma checkPassword_hashPassword:
  "checkPassword d q (Some (fst (hashPassword d p w))) =
     (if scrypt d q (toHex (fst (randomBytes 8 w))) 32
           = scrypt d p (toHex (fst (randomBytes 8 w))) 32
      then Inr () else Inl (BadRequestException WrongEmailOrPassword))"
  by (simp only: hashPassword_shape fst_conv checkPassword_stored)

text \<open>A stored string, however malformed, never makes the check crash.\<close>

lemma checkPassword_Some_cases:
  "checkPassword d pw (Some s) = Inr ()
     \<or> checkPassword d pw (Some s) = Inl (BadRequestException WrongEmailOrPassword)"
  using split_nonempty[of "CHR ''.''" s]
  by (cases "split CHR ''.'' s") (simp_all add: checkPassword_def Let_def)

lemma checkPassword_no_separator:
  "CHR ''.'' \<notin> set s \<Longrightarrow>
     checkPassword d pw (Some s) = Inl (BadRequestException WrongEmailOrPassword)"
  by (simp add: checkPassword_def split_no_sep)

lemma signin_world: "snd (signin d e pw w) = w"
  by (simp add: signin_def split: option.splits sum.splits)

text \<open>What a successful \<open>signup\<close> leaves behind.\<close>

lemma signup_Inr_D:
  assumes "signup d e p w = (Inr tok, w')"
  shows "\<exists>u. findByEmail e w' = Some u \<and> password u = Some (fst (hashPassword d p w))
            \<and> tok = sign d \<lparr>sub = userId u, jwt_email = email u\<rparr>"
proof -
  from assms have none: "findByEmail e w = None"
    by (auto simp: signup_def split: option.splits if_splits)
  define w1 where "w1 = snd (hashPassword d p w)"
  define r where "r = fst (hashPassword d p w)"
  have users1: "users w1 = users w" by (simp add: w1_def hashPassword_shape)
  then have none1: "findByEmail e w1 = None" using none by (simp add: findByEmail_def)
  define u where "u = \<lparr>userId = genId d (users w1), email = e, password = Some r,
        googleId = None, provider = defaultProvider d, status = defaultStatus d,
        tokenVersion = 0, picture = None, displayName = None, firstName = None,
        isActivatedWithEmail = None\<rparr>"
  have cr: "create d e r w1 = (Inr u, w1\<lparr>users := users w1 @ [u]\<rparr>)"
    using none1 by (simp add: create_def insertUser_def u_def Let_def)
  have "signup d e p w =
          (Inr (sign d \<lparr>sub = userId u, jwt_email = email u\<rparr>), w1\<lparr>users := users w1 @ [u]\<rparr>)"
    using none cr by (simp add: signup_def r_def w1_def case_prod_beta)
  with assms have tok: "tok = sign d \<lparr>sub = userId u, jwt_email = email u\<rparr>"
    and w': "w' = w1\<lparr>users := users w1 @ [u]\<rparr>" by simp_all
  have "find (\<lambda>v. email v = e) (users w1 @ [u]) = Some u"
    using none1 by (intro find_append_new) (simp_all add: findByEmail_def u_def)
  then have "findByEmail e w' = Some u" by (simp add: findByEmail_def w')
  moreover have "password u = Some r" by (simp add: u_def)
  ultimately show ?thesis using tok r_def by blast
qed

lemma signup_new_email:
  "findByEmail e w = None \<Longrightarrow> \<exists>tok w'. signup d e p w = (Inr tok, w')"
  by (simp add: signup_def create_def insertUser_def hashPassword_shape findByEmail_def Let_def)

text \<open>In the sample world alice's stored value verifies \<open>pw1\<close> and refuses \<open>wrong\<close>.\<close>

lemma alice_check_pw1: "checkPassword deps0 ''pw1'' (Some aliceStored) = Inr ()"
  unfolding aliceStored_def checkPassword_stored
  by (simp add: deps0_def scrypt0_def)

lemma alice_check_wrong:
  "checkPassword deps0 ''wrong'' (Some aliceStored)
     = Inl (BadRequestException WrongEmailOrPassword)"
  unfolding aliceStored_def checkPassword_stored
  by (simp add: deps0_def scrypt0_def length_toHex aliceSalt_def)

lemma aliceStored_nonempty: "aliceStored \<noteq> []"
  by (simp add: aliceStored_def)

section \<open>Banning a user\<close>

text \<open>
  C10. For a user id that no row of the store carries, \<open>banUser\<close> fails with the
  not-found exception and leaves the world as it was: no status, no token version and no
  refresh token is touched.
\<close>

theorem C10_banUser_unknown_id:
  assumes "i \<notin> userId ` set (users w)"
  shows "banUser i w = (Inl (NotFoundException UserNotFound), w)"
  using assms by (simp add: banUser_def findOneById_None_iff[symmetric])

theorem C10_banUser_unknown_id_witness:
  "''u9'' \<notin> userId ` set (users world0)
   \<and> banUser ''u9'' world0 = (Inl (NotFoundException UserNotFound), world0)"
proof -
  have h: "''u9'' \<notin> userId ` set (users world0)"
    by (simp add: sample_defs)
  show ?thesis using h C10_banUser_unknown_id[OF h] by simp
qed




section \<open>Hashing and verifying passwords\<close>

text \<open>
  C8. Hashing draws the next eight bytes of the random source and advances the source by
  eight, so no byte is drawn twice; the salt is the hexadecimal form of these bytes
  (sixteen characters); the stored value is the salt, a dot and the hexadecimal form of the
  key derived from the password and that very salt, and splitting it at the dots gives back
  exactly these two pieces. Whenever two hashings draw different bytes, the stored values
  differ, for the same password too.
\<close>

theorem C8_hashPassword_shape:
  "(\<exists>bytes. bytes = fst (randomBytes 8 w) \<and> length bytes = 8
       \<and> bytes = map (entropy w) [entropyPos w ..< entropyPos w + 8]
       \<and> length (toHex bytes) = 16
       \<and> fst (hashPassword d pw w)
            = toHex bytes @ ''.'' @ toHex (scrypt d pw (toHex bytes) 32)
       \<and> split CHR ''.'' (fst (hashPassword d pw w))
            = [toHex bytes, toHex (scrypt d pw (toHex bytes) 32)])
   \<and> entropyPos (snd (hashPassword d pw w)) = entropyPos w + 8
   \<and> (fst (randomBytes 8 w) \<noteq> fst (randomBytes 8 w2) \<longrightarrow>
        fst (hashPassword d pw w) \<noteq> fst (hashPassword d pw w2))"
proof (intro conjI impI)
  let ?b = "fst (randomBytes 8 w)"
  let ?k = "scrypt d pw (toHex ?b) 32"
  have sp: "split CHR ''.'' (toHex ?b @ ''.'' @ toHex ?k) = [toHex ?b, toHex ?k]"
    using split_append[OF toHex_no_dot, of ?b "toHex ?k"] split_no_sep[OF toHex_no_dot, of ?k]
    by simp
  show "\<exists>bytes. bytes = ?b \<and> length bytes = 8
       \<and> bytes = map (entropy w) [entropyPos w ..< entropyPos w + 8]
       \<and> length (toHex bytes) = 16
       \<and> fst (hashPassword d pw w)
            = toHex bytes @ ''.'' @ toHex (scrypt d pw (toHex bytes) 32)
       \<and> split CHR ''.'' (fst (hashPassword d pw w))
            = [toHex bytes, toHex (scrypt d pw (toHex bytes) 32)]"
    using sp by (simp add: hashPassword_shape length_toHex length_randomBytes)
       (simp add: randomBytes_def)
  show "entropyPos (snd (hashPassword d pw w)) = entropyPos w + 8"
    by (simp add: hashPassword_shape)
next
  assume ne: "fst (randomBytes 8 w) \<noteq> fst (randomBytes 8 w2)"
  show "fst (hashPassword d pw w) \<noteq> fst (hashPassword d pw w2)"
  proof
    assume "fst (hashPassword d pw w) = fst (hashPassword d pw w2)"
    then have "split CHR ''.'' (fst (hashPassword d pw w))
                 = split CHR ''.'' (fst (hashPassword d pw w2))" by simp
    then have "toHex (fst (randomBytes 8 w)) = toHex (fst (randomBytes 8 w2))"
      by (simp add: hashPassword_shape split_append[OF toHex_no_dot])
    then show False using ne toHex_inj by blast
  qed
qed

theorem C8_hashPassword_shape_witness:
  "fst (randomBytes 8 world0) \<noteq> fst (randomBytes 8 (snd (hashPassword deps0 ''pw1'' world0)))
   \<and> fst (hashPassword deps0 ''pw1'' world0)
       \<noteq> fst (hashPassword deps0 ''pw1'' (snd (hashPassword deps0 ''pw1'' world0)))"
proof -
  let ?w2 = "snd (hashPassword deps0 ''pw1'' world0)"
  have ne: "fst (randomBytes 8 world0) \<noteq> fst (randomBytes 8 ?w2)"
  proof
    assume "fst (randomBytes 8 world0) = fst (randomBytes 8 ?w2)"
    then have "fst (randomBytes 8 world0) ! 0 = fst (randomBytes 8 ?w2) ! 0" by simp
    then show False
      by (simp add: randomBytes_nth hashPassword_shape world0_def)
  qed
  show ?thesis
    using ne C8_hashPassword_shape[of world0 deps0 "''pw1''" ?w2] by blast
qed

text \<open>
  C5. Verifying a password against the value stored for it succeeds, whatever the salt
  drawn. Verifying \<open>q\<close> against the value stored for \<open>p\<close> succeeds exactly when the key
  derivation gives \<open>q\<close> and \<open>p\<close> the same 32 bytes under the stored salt, that is, it fails
  unless the derivation collides. On the whole path: after a successful \<open>signup\<close> with
  \<open>p\<close>, \<open>signin\<close> with the same address and \<open>p\<close> authenticates (it signs the very payload
  \<open>signup\<close> signed), and \<open>signin\<close> with a \<open>q\<close> whose derived key differs is refused.
\<close>

theorem C5_hash_verify_roundtrip:
  "checkPassword d p (Some (fst (hashPassword d p w))) = Inr ()
   \<and> (checkPassword d q (Some (fst (hashPassword d p w))) = Inr ()
        \<longleftrightarrow> scrypt d q (toHex (fst (randomBytes 8 w))) 32
              = scrypt d p (toHex (fst (randomBytes 8 w))) 32)
   \<and> (\<forall>tok w'. signup d e p w = (Inr tok, w') \<longrightarrow>
         signin d e p w' = (Inr tok, w')
         \<and> (scrypt d q (toHex (fst (randomBytes 8 w))) 32
              \<noteq> scrypt d p (toHex (fst (randomBytes 8 w))) 32 \<longrightarrow>
            signin d e q w' = (Inl (BadRequestException WrongEmailOrPassword), w')))"
proof (intro conjI allI impI)
  show "checkPassword d p (Some (fst (hashPassword d p w))) = Inr ()"
    by (simp add: checkPassword_hashPassword)
  show "checkPassword d q (Some (fst (hashPassword d p w))) = Inr ()
        \<longleftrightarrow> scrypt d q (toHex (fst (randomBytes 8 w))) 32
              = scrypt d p (toHex (fst (randomBytes 8 w))) 32"
    by (simp add: checkPassword_hashPassword)
next
  fix tok w'
  assume su: "signup d e p w = (Inr tok, w')"
  then obtain u where u: "findByEmail e w' = Some u"
      "password u = Some (fst (hashPassword d p w))"
      "tok = sign d \<lparr>sub = userId u, jwt_email = email u\<rparr>"
    using signup_Inr_D by blast
  have t: "truthy (password u)" using u(2) hashPassword_nonempty by (simp add: truthy_def)
  show "signin d e p w' = (Inr tok, w')"
    using u t by (simp add: signin_def checkPassword_hashPassword)
  assume "scrypt d q (toHex (fst (randomBytes 8 w))) 32
              \<noteq> scrypt d p (toHex (fst (randomBytes 8 w))) 32"
  then show "signin d e q w' = (Inl (BadRequestException WrongEmailOrPassword), w')"
    using u t by (simp add: signin_def checkPassword_hashPassword)
qed

theorem C5_hash_verify_roundtrip_witness:
  "\<exists>tok w'. signup deps0 ''d@x.com'' ''pw1'' world0 = (Inr tok, w')
     \<and> signin deps0 ''d@x.com'' ''pw1'' w' = (Inr tok, w')
     \<and> signin deps0 ''d@x.com'' ''wrong'' w'
          = (Inl (BadRequestException WrongEmailOrPassword), w')"
proof -
  have "findByEmail ''d@x.com'' world0 = None"
    by (simp add: findByEmail_def sample_defs)
  then obtain tok w' where su: "signup deps0 ''d@x.com'' ''pw1'' world0 = (Inr tok, w')"
    using signup_new_email by blast
  have ne: "scrypt deps0 ''wrong'' (toHex (fst (randomBytes 8 world0))) 32
              \<noteq> scrypt deps0 ''pw1'' (toHex (fst (randomBytes 8 world0))) 32"
    by (simp add: deps0_def scrypt0_def length_toHex length_randomBytes)
  show ?thesis
    using C5_hash_verify_roundtrip[of deps0 "''pw1''" world0 "''wrong''" "''d@x.com''"] su ne
    by blast
qed

section \<open>Failures of the password login\<close>

text \<open>
  C7. Take the account the address resolves to to be federated-only: its Google id is set
  and its password is \<open>null\<close>. Then \<open>signin\<close> and \<open>verifyUser\<close> both end in an exception, leave
  the world as it was, and the exception is never the \<open>BadRequestException\<close> ('Wrong email
  or password') of a wrong password: \<open>signin\<close> throws the \<open>ForbiddenException\<close> ('Please use
  Google to login') whenever the Google id is a non-empty string, and \<open>verifyUser\<close> throws
  the \<open>UnprocessableEntityException\<close> whenever the provider is 'google', as it is for every
  row \<open>createFromGoogle\<close> makes.
\<close>

theorem C7_federated_only_rejected:
  assumes "findByEmail e w = Some user" and "googleId user = Some g" and "password user = None"
  shows "(\<exists>x. signin d e pw w = (Inl x, w)
            \<and> x \<noteq> BadRequestException WrongEmailOrPassword
            \<and> (g \<noteq> [] \<longrightarrow> x = ForbiddenException PleaseUseGoogle))
       \<and> (\<exists>y. verifyUser d e pw w = (Inl y, w)
            \<and> y \<noteq> BadRequestException WrongEmailOrPassword
            \<and> (provider user = Some ''google'' \<longrightarrow>
                  y = UnprocessableEntityException RegisteredOtherwise))"
  using assms by (simp add: signin_def verifyUser_def truthy_def checkPassword_def)

theorem C7_federated_only_rejected_witness:
  "findByEmail ''b@x.com'' world0 = Some bob \<and> googleId bob = Some ''g2'' \<and> password bob = None
   \<and> signin deps0 ''b@x.com'' ''pw1'' world0 = (Inl (ForbiddenException PleaseUseGoogle), world0)
   \<and> verifyUser deps0 ''b@x.com'' ''pw1'' world0
        = (Inl (UnprocessableEntityException RegisteredOtherwise), world0)"
proof -
  have h: "findByEmail ''b@x.com'' world0 = Some bob"
    by (simp add: findByEmail_def sample_defs)
  have g: "googleId bob = Some ''g2''" and p: "password bob = None"
    and pr: "provider bob = Some ''google''"
    by (simp_all add: bob_def)
  show ?thesis
    using C7_federated_only_rejected[OF h g p, of deps0 "''pw1''"] h g p pr by auto
qed

text \<open>
  C4, as the code has it. \<open>signin\<close> never changes the world, and its outcome is settled as
  follows. When the address is unknown it fails with the \<open>NotFoundException\<close> ('User not
  found'). When the address is known and the stored value is a string: if the string is
  empty and the row has a Google id, it fails with the \<open>ForbiddenException\<close> ('Please use
  Google to login'); otherwise it succeeds exactly when the stored string has at least two
  pieces between its dots and the second piece is the hexadecimal form of the key derived
  from the password with the first piece as salt, and in every other case, a wrong password
  or a malformed stored string (one without a dot, say) alike, it fails with the one
  \<open>BadRequestException\<close> ('Wrong email or password'). A stored string has no dot or at
  least two pieces, so these cases are all there are.
\<close>

theorem C4_signin_failure_classes:
  "(findByEmail e w = None \<longrightarrow>
      signin d e pw w = (Inl (NotFoundException UserNotFound), w))
   \<and> (\<forall>user s. findByEmail e w = Some user \<and> password user = Some s \<longrightarrow>
        (s = [] \<and> truthy (googleId user) \<longrightarrow>
           signin d e pw w = (Inl (ForbiddenException PleaseUseGoogle), w))
      \<and> (s \<noteq> [] \<or> \<not> truthy (googleId user) \<longrightarrow>
           (CHR ''.'' \<notin> set s \<longrightarrow>
              signin d e pw w = (Inl (BadRequestException WrongEmailOrPassword), w))
         \<and> (\<forall>salt h rest. split CHR ''.'' s = salt # h # rest \<longrightarrow>
              signin d e pw w =
                (if h = toHex (scrypt d pw salt 32)
                 then (Inr (sign d \<lparr>sub = userId user, jwt_email = email user\<rparr>), w)
                 else (Inl (BadRequestException WrongEmailOrPassword), w)))
         \<and> (CHR ''.'' \<notin> set s \<or> (\<exists>salt h rest. split CHR ''.'' s = salt # h # rest))))"
proof (intro conjI allI impI)
  assume "findByEmail e w = None"
  then show "signin d e pw w = (Inl (NotFoundException UserNotFound), w)"
    by (simp add: signin_def)
next
  fix user s
  assume h: "findByEmail e w = Some user \<and> password user = Some s"
    and g: "s = [] \<and> truthy (googleId user)"
  then show "signin d e pw w = (Inl (ForbiddenException PleaseUseGoogle), w)"
    by (simp add: signin_def truthy_def)
next
  fix user s
  assume h: "findByEmail e w = Some user \<and> password user = Some s"
    and g: "s \<noteq> [] \<or> \<not> truthy (googleId user)"
    and nodot: "CHR ''.'' \<notin> set s"
  from h have u: "findByEmail e w = Some user" and p: "password user = Some s" by simp_all
  from g have guard: "truthy (Some s) \<or> \<not> truthy (googleId user)" by (auto simp: truthy_def)
  show "signin d e pw w = (Inl (BadRequestException WrongEmailOrPassword), w)"
    using guard checkPassword_no_separator[OF nodot, of d pw]
    by (auto simp: signin_def u p)
next
  fix user s salt h rest
  assume k: "findByEmail e w = Some user \<and> password user = Some s"
    and g: "s \<noteq> [] \<or> \<not> truthy (googleId user)"
    and sp: "split CHR ''.'' s = salt # h # rest"
  from k have u: "findByEmail e w = Some user" and p: "password user = Some s" by simp_all
  from g have guard: "truthy (Some s) \<or> \<not> truthy (googleId user)" by (auto simp: truthy_def)
  have cp: "checkPassword d pw (Some s) =
              (if h = toHex (scrypt d pw salt 32) then Inr ()
               else Inl (BadRequestException WrongEmailOrPassword))"
    by (simp add: checkPassword_def sp Let_def)
  show "signin d e pw w =
          (if h = toHex (scrypt d pw salt 32)
           then (Inr (sign d \<lparr>sub = userId user, jwt_email = email user\<rparr>), w)
           else (Inl (BadRequestException WrongEmailOrPassword), w))"
    using guard by (auto simp: signin_def u p cp)
next
  fix user s
  show "CHR ''.'' \<notin> set s \<or> (\<exists>salt h rest. split CHR ''.'' s = salt # h # rest)"
    using split_two_pieces[of "CHR ''.''" s] by blast
qed

lemma signin_unknown_sample:
  "signin deps0 ''nobody@x.com'' ''pw1'' world0 = (Inl (NotFoundException UserNotFound), world0)"
  by (simp add: signin_def findByEmail_def sample_defs)

lemma findByEmail_alice: "findByEmail ''a@x.com'' world0 = Some alice"
  by (simp add: findByEmail_def sample_defs)

lemma signin_alice_wrong_sample:
  "signin deps0 ''a@x.com'' ''wrong'' world0
     = (Inl (BadRequestException WrongEmailOrPassword), world0)"
  using alice_check_wrong aliceStored_nonempty
  by (simp add: signin_def findByEmail_alice truthy_def alice_def)

lemma signin_alice_pw1_sample:
  "signin deps0 ''a@x.com'' ''pw1'' world0
     = (Inr (sign deps0 \<lparr>sub = ''u1'', jwt_email = ''a@x.com''\<rparr>), world0)"
  using alice_check_pw1 aliceStored_nonempty
  by (simp add: signin_def findByEmail_alice truthy_def alice_def)

lemma split_aliceStored:
  "split CHR ''.'' aliceStored
     = [toHex aliceSalt, toHex (scrypt0 ''pw1'' (toHex aliceSalt) 32)]"
  unfolding aliceStored_def
  using split_append[OF toHex_no_dot, of aliceSalt
          "toHex (scrypt0 ''pw1'' (toHex aliceSalt) 32)"]
        split_no_sep[OF toHex_no_dot, of "scrypt0 ''pw1'' (toHex aliceSalt) 32"]
  by simp

lemma alice_key_differs:
  "toHex (scrypt0 ''pw1'' (toHex aliceSalt) 32)
     \<noteq> toHex (scrypt deps0 ''wrong'' (toHex aliceSalt) 32)"
proof
  assume "toHex (scrypt0 ''pw1'' (toHex aliceSalt) 32)
            = toHex (scrypt deps0 ''wrong'' (toHex aliceSalt) 32)"
  then have "scrypt0 ''pw1'' (toHex aliceSalt) 32 = scrypt deps0 ''wrong'' (toHex aliceSalt) 32"
    by (rule toHex_inj)
  then show False
    by (simp add: deps0_def scrypt0_def length_toHex aliceSalt_def)
qed

theorem C4_signin_failure_classes_witness:
  "findByEmail ''nobody@x.com'' world0 = None
   \<and> signin deps0 ''nobody@x.com'' ''pw1'' world0
        = (Inl (NotFoundException UserNotFound), world0)
   \<and> findByEmail ''a@x.com'' world0 = Some alice \<and> password alice = Some aliceStored
   \<and> aliceStored \<noteq> []
   \<and> signin deps0 ''a@x.com'' ''wrong'' world0
        = (Inl (BadRequestException WrongEmailOrPassword), world0)
   \<and> findByEmail ''e@y.com'' world1 = Some erin \<and> password erin = Some ''corrupt''
   \<and> CHR ''.'' \<notin> set ''corrupt''
   \<and> signin deps0 ''e@y.com'' ''pw1'' world1
        = (Inl (BadRequestException WrongEmailOrPassword), world1)
   \<and> findByEmail ''f@y.com'' world1 = Some fay \<and> password fay = Some []
   \<and> truthy (googleId fay)
   \<and> signin deps0 ''f@y.com'' ''pw1'' world1
        = (Inl (ForbiddenException PleaseUseGoogle), world1)"
proof -
  have n: "findByEmail ''nobody@x.com'' world0 = None"
    by (simp add: findByEmail_def sample_defs)
  have r1: "signin deps0 ''nobody@x.com'' ''pw1'' world0
              = (Inl (NotFoundException UserNotFound), world0)"
    using C4_signin_failure_classes[of "''nobody@x.com''" world0 deps0 "''pw1''"] n by blast
  have pa: "password alice = Some aliceStored" by (simp add: alice_def)
  have r2: "signin deps0 ''a@x.com'' ''wrong'' world0
              = (Inl (BadRequestException WrongEmailOrPassword), world0)"
    using C4_signin_failure_classes[of "''a@x.com''" world0 deps0 "''wrong''"]
          findByEmail_alice pa aliceStored_nonempty split_aliceStored alice_key_differs
    by auto
  have fe: "findByEmail ''e@y.com'' world1 = Some erin"
    by (simp add: findByEmail_def world1_defs)
  have pe: "password erin = Some ''corrupt''" by (simp add: erin_def)
  have nd: "CHR ''.'' \<notin> set ''corrupt''" by simp
  have r3: "signin deps0 ''e@y.com'' ''pw1'' world1
              = (Inl (BadRequestException WrongEmailOrPassword), world1)"
    using C4_signin_failure_classes[of "''e@y.com''" world1 deps0 "''pw1''"] fe pe nd
    by auto
  have ff: "findByEmail ''f@y.com'' world1 = Some fay"
    by (simp add: findByEmail_def world1_defs)
  have pf: "password fay = Some []" by (simp add: fay_def)
  have gf: "truthy (googleId fay)" by (simp add: fay_def truthy_def)
  have r4: "signin deps0 ''f@y.com'' ''pw1'' world1
              = (Inl (ForbiddenException PleaseUseGoogle), world1)"
    using C4_signin_failure_classes[of "''f@y.com''" world1 deps0 "''pw1''"] ff pf gf
    by auto
  show ?thesis
    using n r1 findByEmail_alice pa aliceStored_nonempty r2 fe pe nd r3 ff pf gf r4
    by simp
qed

text \<open>
  C4, as the specification states it, fails: in the sample world alice's password is
  \<open>pw1\<close>; a login with an unknown address and a login with alice's address and a wrong
  password surface two different exceptions.
\<close>

theorem C4_signin_errors_differ:
  "signin deps0 ''a@x.com'' ''pw1'' world0
     = (Inr (sign deps0 \<lparr>sub = ''u1'', jwt_email = ''a@x.com''\<rparr>), world0)
   \<and> fst (signin deps0 ''nobody@x.com'' ''pw1'' world0) = Inl (NotFoundException UserNotFound)
   \<and> fst (signin deps0 ''a@x.com'' ''wrong'' world0)
        = Inl (BadRequestException WrongEmailOrPassword)
   \<and> fst (signin deps0 ''nobody@x.com'' ''pw1'' world0)
        \<noteq> fst (signin deps0 ''a@x.com'' ''wrong'' world0)"
  by (simp add: signin_unknown_sample signin_alice_wrong_sample signin_alice_pw1_sample)

text \<open>
  C6 fails on the code. \<open>carol\<close>'s row has no password and no Google id, so the guard of
  \<open>signin\<close> (no password and a Google id) does not fire, and the guard of \<open>verifyUser\<close> (the
  provider is 'google') does not fire either; both go on to split the \<open>null\<close> password and
  end in the runtime's \<open>TypeError\<close>, not in a reported verification failure.
\<close>

theorem C6_null_password_crashes:
  "findByEmail ''c@x.com'' world0 = Some carol
   \<and> password carol = None \<and> googleId carol = None \<and> provider carol = None
   \<and> signin deps0 ''c@x.com'' ''pw1'' world0 = (Inl TypeError, world0)
   \<and> verifyUser deps0 ''c@x.com'' ''pw1'' world0 = (Inl TypeError, world0)"
  by (simp add: signin_def verifyUser_def findByEmail_def sample_defs truthy_def
        checkPassword_def)

section \<open>The status gate\<close>

text \<open>\<open>login\<close> issues the token pair for no status but \<open>Active\<close>, and denies the three
  others before it calls the token service.\<close>

lemma login_gate:
  "status user \<noteq> Active \<Longrightarrow>
     login d user w = (Inl (AccountInactiveException AccountNotActive), w)"
  by (cases "status user") (simp_all add: login_def)

lemma login_issues_only_active:
  "fst (login d user w) = Inr toks \<Longrightarrow> status user = Active"
  by (cases "status user") (simp_all add: login_def)

text \<open>\<open>googleLogin\<close> signs a token for the user the subject resolves to without reading
  the status.\<close>

lemma googleLogin_existing:
  "verifyIdToken d tok = Inr (Some payload) \<Longrightarrow>
   findByGoogleId (tp_sub payload) w = Some user \<Longrightarrow>
     googleLogin d tok w = (Inr (sign d \<lparr>sub = userId user, jwt_email = email user\<rparr>), w)"
  by (simp add: googleLogin_def)

text \<open>
  C1 fails on the code. \<open>bob\<close> is banned (status \<open>Blocked\<close>) and his Google id is \<open>g2\<close>.
  \<open>login\<close> denies him with the \<open>AccountInactiveException\<close>; \<open>googleLogin\<close> with an identity
  token for \<open>g2\<close> signs him a token all the same.
\<close>

theorem C1_googleLogin_skips_status_gate:
  "status bob = Blocked
   \<and> findByGoogleId ''g2'' world0 = Some bob
   \<and> login deps0 bob world0 = (Inl (AccountInactiveException AccountNotActive), world0)
   \<and> googleLogin deps0 ''tok-bob'' world0
        = (Inr (sign deps0 \<lparr>sub = ''u2'', jwt_email = ''b@x.com''\<rparr>), world0)"
proof -
  have s: "status bob = Blocked" by (simp add: bob_def)
  have f: "findByGoogleId ''g2'' world0 = Some bob"
    by (simp add: findByGoogleId_def sample_defs)
  have v: "verifyIdToken deps0 ''tok-bob'' = Inr (Some payloadBob)"
    by (simp add: deps0_def)
  have "tp_sub payloadBob = ''g2''" by (simp add: payloadBob_def)
  with f v have "googleLogin deps0 ''tok-bob'' world0
      = (Inr (sign deps0 \<lparr>sub = userId bob, jwt_email = email bob\<rparr>), world0)"
    by (simp add: googleLogin_existing)
  moreover have "login deps0 bob world0
      = (Inl (AccountInactiveException AccountNotActive), world0)"
    using s by (simp add: login_gate)
  ultimately show ?thesis using s f by (simp add: bob_def)
qed

section \<open>A Google identity whose address is taken\<close>

text \<open>
  C2 fails on the code. In the sample world the address \<open>a@x.com\<close> belongs to alice, who
  has a password, and no row carries the Google id \<open>g9\<close>. \<open>googleLogin\<close> with an identity
  token for \<open>g9\<close> and that address does not look the address up. Where the store does not
  enforce unique addresses it appends a second account with alice's address and signs a
  token for it; where it does, the store's \<open>QueryFailedError\<close> comes up as it is. In both
  cases there is neither a conflict exception nor a link to alice's row, which \<open>signup\<close>
  by contrast guards with its two address checks.
\<close>

theorem C2_googleLogin_address_taken:
  "findByEmail ''a@x.com'' world0 = Some alice \<and> truthy (password alice)
   \<and> findByGoogleId ''g9'' world0 = None
   \<and> googleLogin deps0 ''tok-new'' world0
        = (Inr (sign deps0 \<lparr>sub = userId newcomer, jwt_email = ''a@x.com''\<rparr>),
           world0\<lparr>users := [alice, bob, carol, newcomer]\<rparr>)
   \<and> email newcomer = email alice \<and> userId newcomer \<noteq> userId alice
   \<and> googleLogin (deps0\<lparr>uniqueEmail := True\<rparr>) ''tok-new'' world0
        = (Inl QueryFailedError, world0)
   \<and> signup deps0 ''a@x.com'' ''pw2'' world0 = (Inl (BadRequestException EmailInUse), world0)"
proof -
  have a: "findByEmail ''a@x.com'' world0 = Some alice"
    by (simp add: findByEmail_def sample_defs)
  have t: "truthy (password alice)"
    using aliceStored_nonempty by (simp add: truthy_def alice_def)
  have g: "findByGoogleId ''g9'' world0 = None"
    by (simp add: findByGoogleId_def sample_defs)
  have l1: "googleLogin deps0 ''tok-new'' world0
        = (Inr (sign deps0 \<lparr>sub = userId newcomer, jwt_email = ''a@x.com''\<rparr>),
           world0\<lparr>users := [alice, bob, carol, newcomer]\<rparr>)"
    by (simp add: googleLogin_def createFromGoogle_def insertUser_def findByGoogleId_def
          findByEmail_def Let_def deps0_def payloadNew_def newcomer_def world0_def
          alice_def bob_def carol_def)
  have l2: "googleLogin (deps0\<lparr>uniqueEmail := True\<rparr>) ''tok-new'' world0
        = (Inl QueryFailedError, world0)"
    by (simp add: googleLogin_def createFromGoogle_def insertUser_def findByGoogleId_def
          findByEmail_def Let_def deps0_def payloadNew_def world0_def
          alice_def bob_def carol_def)
  have su: "signup deps0 ''a@x.com'' ''pw2'' world0
        = (Inl (BadRequestException EmailInUse), world0)"
    using a by (simp add: signup_def truthy_def alice_def)
  have e: "email newcomer = email alice" "userId newcomer \<noteq> userId alice"
    by (simp_all add: newcomer_def alice_def)
  show ?thesis using a t g l1 l2 su e by simp
qed

end
